theory Spec2Isabelle
  imports Main
begin

section \<open>Python values and strings\<close>

text \<open>
  A Python \<^verbatim>\<open>str\<close> is modelled as an Isabelle \<^typ>\<open>string\<close>: a list of
  characters with code points below 256. The values a contact dictionary can hold are
  \<^verbatim>\<open>None\<close>, a string or an integer; a dictionary is a map, \<^verbatim>\<open>d.get(k)\<close> is the
  lookup, with \<^verbatim>\<open>None\<close> for an absent key.
\<close>

datatype pyval = PNone | PStr string | PInt int

type_synonym contact = "string \<rightharpoonup> pyval"

text \<open>Python truthiness (\<^verbatim>\<open>bool(v)\<close>, \<^verbatim>\<open>not v\<close>).\<close>

fun truthy :: "pyval \<Rightarrow> bool" where
  "truthy PNone = False"
| "truthy (PStr s) = (s \<noteq> [])"
| "truthy (PInt i) = (i \<noteq> 0)"

text \<open>\<^verbatim>\<open>d.get(k)\<close>: the value, or \<^verbatim>\<open>None\<close>.\<close>

definition dict_get :: "contact \<Rightarrow> string \<Rightarrow> pyval" where
  "dict_get d k = (case d k of None \<Rightarrow> PNone | Some v \<Rightarrow> v)"

text \<open>\<^verbatim>\<open>isinstance(v, str)\<close>.\<close>

fun is_str :: "pyval \<Rightarrow> bool" where
  "is_str (PStr s) = True"
| "is_str v = False"

text \<open>Decimal digits of a natural number and of an integer (\<^verbatim>\<open>str(n)\<close>).\<close>

fun string_of_nat :: "nat \<Rightarrow> string" where
  "string_of_nat n =
     (if n < 10 then [char_of (48 + n)]
      else string_of_nat (n div 10) @ [char_of (48 + n mod 10)])"

declare string_of_nat.simps [simp del]

definition string_of_int :: "int \<Rightarrow> string" where
  "string_of_int i = (if i < 0 then CHR ''-'' # string_of_nat (nat (- i)) else string_of_nat (nat i))"

text \<open>\<^verbatim>\<open>str(v)\<close>, as an f-string or \<^verbatim>\<open>str.format\<close> renders a value.\<close>

fun py_str :: "pyval \<Rightarrow> string" where
  "py_str PNone = ''None''"
| "py_str (PStr s) = s"
| "py_str (PInt i) = string_of_int i"

text \<open>
  \<^verbatim>\<open>str.isspace\<close> on one character: tab, line feed, vertical tab, form feed, carriage
  return, the four separators 28..31, space, and 133 and 160 of Latin-1.
\<close>

definition is_space :: "char \<Rightarrow> bool" where
  "is_space c = (let n = (of_char c :: nat) in
     (9 \<le> n \<and> n \<le> 13) \<or> (28 \<le> n \<and> n \<le> 32) \<or> n = 133 \<or> n = 160)"

text \<open>\<^verbatim>\<open>s.strip()\<close>: whitespace removed at both ends.\<close>

definition strip :: "string \<Rightarrow> string" where
  "strip s = rev (dropWhile is_space (rev (dropWhile is_space s)))"

text \<open>\<^verbatim>\<open>s.lower()\<close>: the capital letters of ASCII and of Latin-1 are mapped to small ones.\<close>

definition lower_char :: "char \<Rightarrow> char" where
  "lower_char c = (let n = (of_char c :: nat) in
     if (65 \<le> n \<and> n \<le> 90) \<or> (192 \<le> n \<and> n \<le> 222 \<and> n \<noteq> 215) then char_of (n + 32) else c)"

definition lower :: "string \<Rightarrow> string" where
  "lower s = map lower_char s"

text \<open>\<^verbatim>\<open>needle in text\<close> on strings: \<^verbatim>\<open>needle\<close> occurs as a contiguous substring.\<close>

fun starts_with :: "string \<Rightarrow> string \<Rightarrow> bool" where
  "starts_with [] text = True"
| "starts_with (c # cs) [] = False"
| "starts_with (c # cs) (d # ds) = (c = d \<and> starts_with cs ds)"

fun contains :: "string \<Rightarrow> string \<Rightarrow> bool" where
  "contains needle [] = (needle = [])"
| "contains needle (c # cs) = (starts_with needle (c # cs) \<or> contains needle cs)"

text \<open>\<^verbatim>\<open>s.endswith(suffix)\<close>.\<close>

definition ends_with :: "string \<Rightarrow> string \<Rightarrow> bool" where
  "ends_with suffix s = starts_with (rev suffix) (rev s)"


section \<open>Contact Extractor (\<^verbatim>\<open>excel_processor.py\<close>)\<close>

text \<open>
  A tabular file is modelled by the rows \<^verbatim>\<open>csv.reader\<close> yields for it, each a list of
  strings; \<open>None\<close> stands for a file that cannot be opened or read (the
  \<^verbatim>\<open>FileNotFoundError\<close> and the catch-all handler both return the empty list). The
  text-level quoting rules of the \<^verbatim>\<open>csv\<close> module are not modelled.
\<close>

type_synonym csv_file = "string list list option"

text \<open>A row as \<^verbatim>\<open>csv.DictReader\<close> yields it; a short row has \<^verbatim>\<open>None\<close> values.\<close>

type_synonym csv_row = "string \<rightharpoonup> string option"

text \<open>\<^verbatim>\<open>dict(pairs)\<close>: later pairs overwrite earlier ones with the same key.\<close>

definition dict_of_pairs :: "('k \<times> 'v) list \<Rightarrow> ('k \<rightharpoonup> 'v)" where
  "dict_of_pairs kvs = foldl (\<lambda>m (k, v). m(k \<mapsto> v)) Map.empty kvs"

text \<open>
  \<^verbatim>\<open>DictReader.__next__\<close>: \<^verbatim>\<open>dict(zip(fieldnames, row))\<close>, then every field name past the
  end of a short row is set to \<^verbatim>\<open>restval = None\<close>. The values of a long row past the last
  field name go under the key \<^verbatim>\<open>None\<close>, which no code of the repository reads; they are
  left out.
\<close>

definition dict_row :: "string list \<Rightarrow> string list \<Rightarrow> csv_row" where
  "dict_row fieldnames row =
     dict_of_pairs (zip fieldnames
       (map Some row @ replicate (length fieldnames - length row) None))"

text \<open>Iterating a \<^verbatim>\<open>DictReader\<close>: empty rows are skipped.\<close>

definition dict_rows :: "string list \<Rightarrow> string list list \<Rightarrow> csv_row list" where
  "dict_rows fieldnames rows = map (dict_row fieldnames) (filter (\<lambda>r. r \<noteq> []) rows)"

text \<open>\<^verbatim>\<open>row.get(col)\<close>.\<close>

definition row_get :: "csv_row \<Rightarrow> string \<Rightarrow> string option" where
  "row_get row col = (case row col of None \<Rightarrow> None | Some v \<Rightarrow> v)"

datatype col_options = NoOptions | OptionStr string | OptionList "string list"

definition default_email_col_options :: "string list" where
  "default_email_col_options =
     [''Email'', ''Email Address'', ''E-mail'', ''email'', ''Contact Email'', ''EmailID'',
      ''CONTACT_EMAIL'']"

definition default_company_col_options :: "string list" where
  "default_company_col_options =
     [''Company Name'', ''Company'', ''Organization'', ''company_name'', ''Account Name'',
      ''CompanyName'', ''COMPANY_NAME'']"

fun col_options_list :: "string list \<Rightarrow> col_options \<Rightarrow> string list" where
  "col_options_list dflt NoOptions = dflt"
| "col_options_list dflt (OptionStr s) = [s]"
| "col_options_list dflt (OptionList ss) = ss"

text \<open>\<^verbatim>\<open>{name.strip().lower(): name for name in reader.fieldnames}\<close>.\<close>

definition normalized_fieldnames_map :: "string list \<Rightarrow> (string \<rightharpoonup> string)" where
  "normalized_fieldnames_map fieldnames =
     dict_of_pairs (map (\<lambda>name. (lower (strip name), name)) fieldnames)"

text \<open>The two \<^verbatim>\<open>for option in ...: if ... in map: ...; break\<close> loops.\<close>

fun find_col :: "(string \<rightharpoonup> string) \<Rightarrow> string list \<Rightarrow> string option" where
  "find_col m [] = None"
| "find_col m (option # options) =
     (case m (lower (strip option)) of
        Some name \<Rightarrow> Some name
      | None \<Rightarrow> find_col m options)"

text \<open>
  The body of the row loop: \<open>None\<close> when the row is skipped (\<^verbatim>\<open>continue\<close>), otherwise
  the \<^verbatim>\<open>data_entry\<close> that is appended. \<open>company_name_to_store\<close> is the variable of that
  name: \<^verbatim>\<open>"N/A"\<close> unless a company column was identified and the row holds a value
  for it that is not blank, and then that value stripped.
\<close>

definition company_name_to_store :: "string option \<Rightarrow> csv_row \<Rightarrow> string" where
  "company_name_to_store actual_company_col row =
     (case actual_company_col of
        None \<Rightarrow> ''N/A''
      | Some col \<Rightarrow>
          if col = [] then ''N/A''
          else (case row_get row col of
                  None \<Rightarrow> ''N/A''
                | Some company_name_from_row \<Rightarrow>
                    if strip company_name_from_row \<noteq> []
                    then strip company_name_from_row else ''N/A''))"

definition extract_row :: "string \<Rightarrow> string option \<Rightarrow> csv_row \<Rightarrow> contact option" where
  "extract_row actual_email_col actual_company_col row =
     (let email = row_get row actual_email_col
      in case email of
           None \<Rightarrow> None
         | Some e \<Rightarrow>
             if e = [] \<or> strip e = [] then None
             else Some [''Email'' \<mapsto> PStr (strip e),
                        ''Company Name'' \<mapsto> PStr (company_name_to_store actual_company_col row)])"

fun extract_rows :: "string \<Rightarrow> string option \<Rightarrow> csv_row list \<Rightarrow> contact list \<Rightarrow> contact list" where
  "extract_rows ecol ccol [] extracted_data = extracted_data"
| "extract_rows ecol ccol (row # rows) extracted_data =
     (case extract_row ecol ccol row of
        None \<Rightarrow> extract_rows ecol ccol rows extracted_data
      | Some data_entry \<Rightarrow> extract_rows ecol ccol rows (extracted_data @ [data_entry]))"

definition extract_data_from_csv :: "csv_file \<Rightarrow> col_options \<Rightarrow> col_options \<Rightarrow> contact list" where
  "extract_data_from_csv file email_col_options company_col_options =
     (let email_opts = col_options_list default_email_col_options email_col_options;
          company_opts = col_options_list default_company_col_options company_col_options
      in case file of
           None \<Rightarrow> []
         | Some [] \<Rightarrow> []
         | Some (fieldnames # rows) \<Rightarrow>
             if fieldnames = [] then []
             else
               (let m = normalized_fieldnames_map fieldnames;
                    actual_email_col = find_col m email_opts;
                    actual_company_col = find_col m company_opts
                in case actual_email_col of
                     None \<Rightarrow> []
                   | Some ecol \<Rightarrow>
                       if ecol = [] then []
                       else extract_rows ecol actual_company_col (dict_rows fieldnames rows) []))"


section \<open>Configuration (\<^verbatim>\<open>config.py\<close>)\<close>

text \<open>
  The settings the components read. An environment variable that is not set is \<open>None\<close>;
  \<^verbatim>\<open>SMTP_PORT\<close> is always an integer (587 when unset).
\<close>

record settings =
  GEMINI_API_KEY :: "string option"
  SMTP_HOST :: "string option"
  SMTP_PORT :: int
  SMTP_USERNAME :: "string option"
  SMTP_PASSWORD :: "string option"
  SMTP_SENDER_EMAIL :: "string option"
  SMTP_USE_TLS :: bool

text \<open>Truthiness of an optional string: \<^verbatim>\<open>None\<close> and the empty string are falsy.\<close>

fun opt_truthy :: "string option \<Rightarrow> bool" where
  "opt_truthy None = False"
| "opt_truthy (Some s) = (s \<noteq> [])"

text \<open>An optional string inside an f-string.\<close>

fun opt_str :: "string option \<Rightarrow> string" where
  "opt_str None = ''None''"
| "opt_str (Some s) = s"

section \<open>Content Generator (\<^verbatim>\<open>email_generator.py\<close>)\<close>

text \<open>
  The exceptions \<^verbatim>\<open>str.format\<close> can raise: \<^verbatim>\<open>KeyError\<close> with the missing key, and any
  other exception with its message.
\<close>

datatype exn = KeyError string | OtherError string

text \<open>\<^verbatim>\<open>repr\<close> of a string, which is what \<^verbatim>\<open>str(KeyError(key))\<close> shows.\<close>

definition hex_digit :: "nat \<Rightarrow> char" where
  "hex_digit n = (if n < 10 then char_of (48 + n) else char_of (87 + n))"

definition repr_char :: "char \<Rightarrow> char \<Rightarrow> string" where
  "repr_char q c = (let n = (of_char c :: nat) in
     if c = q \<or> c = CHR 0x5C then [CHR 0x5C, c]
     else if c = CHR 0x09 then [CHR 0x5C, CHR ''t'']
     else if c = CHR 0x0A then [CHR 0x5C, CHR ''n'']
     else if c = CHR 0x0D then [CHR 0x5C, CHR ''r'']
     else if n < 32 \<or> (127 \<le> n \<and> n \<le> 160) \<or> n = 173
       then [CHR 0x5C, CHR ''x'', hex_digit (n div 16), hex_digit (n mod 16)]
     else [c])"

definition py_repr :: "string \<Rightarrow> string" where
  "py_repr s =
     (let q = (if CHR 0x27 \<in> set s \<and> CHR 0x22 \<notin> set s then CHR 0x22 else CHR 0x27)
      in q # concat (map (repr_char q) s) @ [q])"

text \<open>\<^verbatim>\<open>str(e)\<close>.\<close>

fun exn_str :: "exn \<Rightarrow> string" where
  "exn_str (KeyError k) = py_repr k"
| "exn_str (OtherError m) = m"

text \<open>
  \<^verbatim>\<open>template.format(**d)\<close> is a library function; the generator takes it as a parameter.
  \<open>format_text\<close> is that function on the templates whose replacement fields are plain
  names: literal text is copied, \<^verbatim>\<open>{{\<close> and \<^verbatim>\<open>}}\<close> are the escaped braces, \<^verbatim>\<open>{name}\<close> is
  replaced by \<^verbatim>\<open>str(d[name])\<close> and raises \<^verbatim>\<open>KeyError(name)\<close> when the key is absent, and an
  unbalanced brace raises \<^verbatim>\<open>ValueError\<close>. Fields are handled from left to right, so the
  first failing one decides the exception. A replacement field with an empty or numeric
  name, a conversion, a format specification or an attribute or index access is outside
  this fragment and is reported as \<open>OtherError\<close>.
\<close>

definition plain_field_name :: "string \<Rightarrow> bool" where
  "plain_field_name name =
     (name \<noteq> [] \<and> (\<forall>c \<in> set name. c \<notin> set ''!:.[]{'') \<and>
      \<not> (\<forall>c \<in> set name. c \<in> set ''0123456789''))"

definition prepend :: "string \<Rightarrow> exn + string \<Rightarrow> exn + string" where
  "prepend s r = (case r of Inl e \<Rightarrow> Inl e | Inr t \<Rightarrow> Inr (s @ t))"

text \<open>The \<^verbatim>\<open>ValueError\<close> for a brace that is neither doubled nor part of a field.\<close>

definition single_brace :: "char \<Rightarrow> exn" where
  "single_brace c =
     OtherError (''Single '' @ [CHR 0x27, c, CHR 0x27] @ '' encountered in format string'')"

fun format_text :: "contact \<Rightarrow> string \<Rightarrow> exn + string"
  and format_field :: "contact \<Rightarrow> string \<Rightarrow> string \<Rightarrow> exn + string" where
  "format_text d [] = Inr []"
| "format_text d [c] =
     (if c = CHR ''{'' then Inl (single_brace (CHR ''{''))
      else if c = CHR ''}'' then Inl (single_brace (CHR ''}''))
      else Inr [c])"
| "format_text d (c # c' # cs) =
     (if c = CHR ''{'' then
        (if c' = CHR ''{'' then prepend ''{'' (format_text d cs)
         else format_field d [] (c' # cs))
      else if c = CHR ''}'' then
        (if c' = CHR ''}'' then prepend ''}'' (format_text d cs)
         else Inl (single_brace (CHR ''}'')))
      else prepend [c] (format_text d (c' # cs)))"
| "format_field d name [] =
     Inl (OtherError (''expected '' @ [CHR 0x27] @ ''}'' @ [CHR 0x27] @ '' before end of string''))"
| "format_field d name (c # cs) =
     (if c = CHR ''}'' then
        (if plain_field_name name then
           (case d name of
              None \<Rightarrow> Inl (KeyError name)
            | Some v \<Rightarrow> prepend (py_str v) (format_text d cs))
         else Inl (OtherError ''replacement field outside the modelled fragment''))
      else format_field d (name @ [c]) cs)"

definition str_format :: "string \<Rightarrow> contact \<Rightarrow> exn + string" where
  "str_format template d = format_text d template"

text \<open>
  The \<^verbatim>\<open>google.generativeai\<close> client: \<^verbatim>\<open>configure\<close> and the model constructor may
  raise (the exception's text is kept), and \<^verbatim>\<open>generate_content\<close> answers a request with
  a response that has parts (and a text), a response without parts (with or without
  prompt feedback: block reason and safety ratings), or an exception.
\<close>

record gen_request =
  company_name_line :: string
  other_details :: contact
  user_instructions :: string

datatype gen_response =
    Parts string
  | NoParts "(string \<times> string) option"
  | ServiceRaises string

record genai_module =
  configure_raises :: "string option"
  model_raises :: "string option"
  generate_content :: "gen_request \<Rightarrow> gen_response"

datatype genai_call = Configure string | GenerativeModel string | GenerateContent gen_request

text \<open>
  The request stands for \<^verbatim>\<open>full_prompt\<close>: the company name
  (\<^verbatim>\<open>company_data.get("Company Name", "N/A")\<close>), the whole record and the rendered
  instructions; the surrounding fixed text is left out.
\<close>

definition full_prompt :: "contact \<Rightarrow> string \<Rightarrow> gen_request" where
  "full_prompt company_data prompt_for_api =
     \<lparr>company_name_line =
        (case company_data ''Company Name'' of None \<Rightarrow> ''N/A'' | Some v \<Rightarrow> py_str v),
      other_details = company_data,
      user_instructions = prompt_for_api\<rparr>"

text \<open>The handler \<^verbatim>\<open>except Exception as e\<close> of the generator.\<close>

definition generation_error :: "string \<Rightarrow> string" where
  "generation_error e = ''Error generating email content: '' @ e"

text \<open>
  \<open>generate_email_content\<close> returns the string the source returns and the calls it made
  to the client library, in order. \<open>genai = None\<close> is the failed import.
\<close>

definition generate_email_content ::
  "genai_module option \<Rightarrow> settings \<Rightarrow> (string \<Rightarrow> contact \<Rightarrow> exn + string) \<Rightarrow>
   contact \<Rightarrow> string \<Rightarrow> string \<times> genai_call list" where
  "generate_email_content genai cfg fmt company_data user_prompt =
     (case genai of
        None \<Rightarrow> (''Error: google-generativeai library is not installed or loaded.'', [])
      | Some g \<Rightarrow>
          if \<not> opt_truthy (GEMINI_API_KEY cfg)
          then (''Error: GEMINI_API_KEY is not configured in settings.'', [])
          else
            (let c1 = [Configure (opt_str (GEMINI_API_KEY cfg))];
                 c2 = c1 @ [GenerativeModel ''gemini-1.0-pro'']
             in case configure_raises g of
                  Some e \<Rightarrow> (generation_error e, c1)
                | None \<Rightarrow>
                   (case model_raises g of
                      Some e \<Rightarrow> (generation_error e, c2)
                    | None \<Rightarrow>
                       (case fmt user_prompt company_data of
                          Inl e \<Rightarrow> (generation_error (exn_str e), c2)
                        | Inr prompt_for_api \<Rightarrow>
                           (let request = full_prompt company_data prompt_for_api;
                                c3 = c2 @ [GenerateContent request]
                            in case generate_content g request of
                                 Parts text \<Rightarrow> (text, c3)
                               | NoParts feedback \<Rightarrow>
                                   (let (block_reason, safety_ratings_str) =
                                          (case feedback of
                                             None \<Rightarrow> (''Unknown'', ''N/A'')
                                           | Some (b, r) \<Rightarrow> (b, r))
                                    in (''Error: Failed to generate content. Block Reason: '' @
                                        block_reason @ ''. Safety Ratings: '' @
                                        safety_ratings_str, c3))
                               | ServiceRaises e \<Rightarrow> (generation_error e, c3))))))"

section \<open>Mail Dispatcher (\<^verbatim>\<open>email_sender.py\<close>)\<close>

text \<open>
  The exceptions of the \<^verbatim>\<open>try\<close> block, by the handler that catches them, each with
  its text \<^verbatim>\<open>str(e)\<close>; the three \<^verbatim>\<open>smtplib\<close> classes are not subclasses of one another.
\<close>

datatype smtp_exn =
    SMTPAuthenticationError string
  | SMTPServerDisconnected string
  | SMTPConnectError string
  | OtherException string

text \<open>
  The calls to the transport, in the order of the source. The transport is a function
  telling which call raises; \<open>Sendmail\<close> includes building \<^verbatim>\<open>message.as_string()\<close>.
\<close>

datatype smtp_step = Connect | Ehlo | StartTLS | EhloAfterTLS | ConnectSSL | Login | Sendmail | Quit

type_synonym transport = "smtp_step \<Rightarrow> smtp_exn option"

fun run_smtp :: "transport \<Rightarrow> smtp_step list \<Rightarrow> smtp_step list \<times> smtp_exn option" where
  "run_smtp server [] = ([], None)"
| "run_smtp server (s # ss) =
     (case server s of
        Some e \<Rightarrow> ([s], Some e)
      | None \<Rightarrow> (let (attempted, r) = run_smtp server ss in (s # attempted, r)))"

definition smtp_steps :: "settings \<Rightarrow> smtp_step list" where
  "smtp_steps cfg =
     (if SMTP_USE_TLS cfg then [Connect, Ehlo, StartTLS, EhloAfterTLS] else [ConnectSSL]) @
     (if opt_truthy (SMTP_USERNAME cfg) \<and> opt_truthy (SMTP_PASSWORD cfg) then [Login] else []) @
     [Sendmail, Quit]"

text \<open>\<^verbatim>\<open>all([settings.SMTP_HOST, settings.SMTP_PORT, settings.SMTP_SENDER_EMAIL])\<close>.\<close>

definition smtp_configured :: "settings \<Rightarrow> bool" where
  "smtp_configured cfg =
     (opt_truthy (SMTP_HOST cfg) \<and> SMTP_PORT cfg \<noteq> 0 \<and> opt_truthy (SMTP_SENDER_EMAIL cfg))"

text \<open>
  \<open>send_email\<close> returns the pair of the source and the transport calls it attempted.
  Building the MIME message before the \<^verbatim>\<open>try\<close> block is taken to succeed on strings.
\<close>

definition send_email ::
  "settings \<Rightarrow> transport \<Rightarrow> string \<Rightarrow> string \<Rightarrow> string \<Rightarrow> (bool \<times> string) \<times> smtp_step list" where
  "send_email cfg server recipient_email subject body =
     (if \<not> smtp_configured cfg
      then ((False, ''Error: SMTP configuration (HOST, PORT, SENDER_EMAIL) is incomplete in settings.''), [])
      else
        (let (attempted, r) = run_smtp server (smtp_steps cfg);
             host = opt_str (SMTP_HOST cfg);
             port = string_of_int (SMTP_PORT cfg)
         in ((case r of
                None \<Rightarrow> (True, ''Email sent successfully to '' @ recipient_email @ ''.'')
              | Some (SMTPAuthenticationError e) \<Rightarrow>
                  (False, ''SMTP Authentication Error for user '' @ opt_str (SMTP_USERNAME cfg) @
                          '': '' @ e)
              | Some (SMTPServerDisconnected e) \<Rightarrow>
                  (False, ''SMTP Server Disconnected: '' @ e @ ''. Check server address ('' @ host @
                          '') and port ('' @ port @ '').'')
              | Some (SMTPConnectError e) \<Rightarrow>
                  (False, ''SMTP Connection Error: Could not connect to '' @ host @ '':'' @ port @
                          ''. Error: '' @ e)
              | Some (OtherException e) \<Rightarrow>
                  (False, ''An unexpected error occurred while sending email via '' @ host @
                          '': '' @ e)),
             attempted)))"


text \<open>
  The six \<^verbatim>\<open>return\<close> statements of \<open>send_email\<close>, and the one a call reaches.
\<close>

datatype send_outcome =
    Misconfigured
  | Delivered
  | AuthenticationFailure
  | ServerDisconnect
  | ConnectionFailure
  | TransportFailure

definition send_outcome :: "settings \<Rightarrow> transport \<Rightarrow> send_outcome" where
  "send_outcome cfg server =
     (if \<not> smtp_configured cfg then Misconfigured
      else case snd (run_smtp server (smtp_steps cfg)) of
             None \<Rightarrow> Delivered
           | Some (SMTPAuthenticationError e) \<Rightarrow> AuthenticationFailure
           | Some (SMTPServerDisconnected e) \<Rightarrow> ServerDisconnect
           | Some (SMTPConnectError e) \<Rightarrow> ConnectionFailure
           | Some (OtherException e) \<Rightarrow> TransportFailure)"

text \<open>
  Reading the outcome off a returned message alone, by the fixed text each of the six
  messages of the source starts with.
\<close>

definition message_kind :: "string \<Rightarrow> send_outcome option" where
  "message_kind msg =
     (if starts_with ''Error: SMTP configuration'' msg then Some Misconfigured
      else if starts_with ''Email sent successfully to '' msg then Some Delivered
      else if starts_with ''SMTP Authentication Error for user '' msg then Some AuthenticationFailure
      else if starts_with ''SMTP Server Disconnected: '' msg then Some ServerDisconnect
      else if starts_with ''SMTP Connection Error: Could not connect to '' msg
        then Some ConnectionFailure
      else if starts_with ''An unexpected error occurred while sending email via '' msg
        then Some TransportFailure
      else None)"

section \<open>Attempt Logger (\<^verbatim>\<open>app.py\<close>)\<close>

text \<open>
  The log store is the file \<^verbatim>\<open>sent_emails.log.csv\<close>, modelled like every tabular file
  by its rows; \<open>None\<close> is the absent file and \<open>Some []\<close> the file of size 0.
  \<^verbatim>\<open>csv.DictWriter\<close> writes a value that is not a string as \<^verbatim>\<open>str\<close> of it, and
  \<^verbatim>\<open>None\<close> as the empty string.
\<close>

definition fieldnames :: "string list" where
  "fieldnames = [''timestamp'', ''recipient'', ''subject'', ''status'', ''message'']"

fun csv_str :: "pyval \<Rightarrow> string" where
  "csv_str PNone = []"
| "csv_str (PStr s) = s"
| "csv_str (PInt i) = string_of_int i"

text \<open>
  \<open>writable\<close> tells whether opening and writing the file succeeds; when it does not, the
  exception is printed and swallowed and the store is unchanged. \<open>now\<close> is the
  formatted \<^verbatim>\<open>datetime.now()\<close>.
\<close>

definition log_email_attempt ::
  "bool \<Rightarrow> string \<Rightarrow> pyval \<Rightarrow> string \<Rightarrow> string \<Rightarrow> string \<Rightarrow> csv_file \<Rightarrow> csv_file" where
  "log_email_attempt writable now recipient subject status message log_file =
     (if \<not> writable then log_file
      else
        (let file_exists = (log_file \<noteq> None);
             existing = (case log_file of None \<Rightarrow> [] | Some rows \<Rightarrow> rows);
             header = (if \<not> file_exists \<or> existing = [] then [fieldnames] else [])
         in Some (existing @ header @ [[now, csv_str recipient, subject, status, message]])))"

section \<open>Batch Orchestrator (\<^verbatim>\<open>app.py\<close>)\<close>

text \<open>
  What the route reaches outside itself. \<open>generate\<close> and \<open>send\<close> are the two functions the
  module imports (or their fallbacks); \<open>generate\<close> may raise, \<open>send\<close> returns its pair. The
  state counts the outside interactions made so far (\<open>tick\<close>), and every outside
  function is asked at the current tick, so that two calls with equal arguments may be
  answered differently.
\<close>

record env =
  now_at :: "nat \<Rightarrow> string"
  log_writable :: "nat \<Rightarrow> bool"
  secure_filename :: "string \<Rightarrow> string"
  save_raises :: "string option"
  generate_at :: "nat \<Rightarrow> contact \<Rightarrow> string \<Rightarrow> exn + string"
  send_at :: "nat \<Rightarrow> string \<Rightarrow> string \<Rightarrow> string \<Rightarrow> bool \<times> string"

datatype call =
    GenerateCall contact string
  | SendCall string string string

record detail =
  d_recipient :: pyval
  d_company :: pyval
  d_status :: string
  d_reason :: "string option"
  d_message :: "string option"

record batch_state =
  log_file :: csv_file
  calls :: "call list"
  tick :: nat
  results :: "detail list"
  emails_sent_count :: nat
  emails_failed_count :: nat

text \<open>One call of \<open>log_email_attempt\<close> from a route.\<close>

definition log_attempt ::
  "env \<Rightarrow> pyval \<Rightarrow> string \<Rightarrow> string \<Rightarrow> string \<Rightarrow> batch_state \<Rightarrow> batch_state" where
  "log_attempt E recipient subject status message st =
     st\<lparr>log_file := log_email_attempt (log_writable E (tick st)) (now_at E (tick st))
                       recipient subject status message (log_file st),
        tick := Suc (tick st)\<rparr>"

text \<open>The three places of the loop that record a failed contact and \<^verbatim>\<open>continue\<close>.\<close>

definition record_failed ::
  "env \<Rightarrow> pyval \<Rightarrow> pyval \<Rightarrow> string \<Rightarrow> string \<Rightarrow> batch_state \<Rightarrow> batch_state" where
  "record_failed E recipient company_name subject reason st =
     (let st1 = log_attempt E recipient subject ''Failed'' reason st
      in st1\<lparr>results := results st1 @
                 [\<lparr>d_recipient = recipient, d_company = company_name, d_status = ''Failed'',
                   d_reason = Some reason, d_message = None\<rparr>],
             emails_failed_count := emails_failed_count st1 + 1\<rparr>)"

text \<open>\<^verbatim>\<open>x or "N/A"\<close>.\<close>

definition or_na :: "pyval \<Rightarrow> pyval" where
  "or_na v = (if truthy v then v else PStr ''N/A'')"

text \<open>
  \<^verbatim>\<open>not recipient_email or not isinstance(recipient_email, str) or "@" not in recipient_email\<close>.
\<close>

definition invalid_email :: "pyval \<Rightarrow> bool" where
  "invalid_email recipient_email =
     (\<not> truthy recipient_email \<or> \<not> is_str recipient_email \<or>
      \<not> contains ''@'' (py_str recipient_email))"

text \<open>
  \<^verbatim>\<open>contact_data.get("Company Name") if contact_data.get("Company Name") else "Valued Partner"\<close>
  and the subject line built from it.
\<close>

definition company_name_of :: "contact \<Rightarrow> pyval" where
  "company_name_of contact_data =
     (if truthy (dict_get contact_data ''Company Name'')
      then dict_get contact_data ''Company Name''
      else PStr ''Valued Partner'')"

definition subject_for :: "pyval \<Rightarrow> string" where
  "subject_for company_name = ''Regarding Your Business, '' @ py_str company_name"

text \<open>
  The body of the loop over the contacts. The second component is the exception that
  leaves the loop, if any: only an exception of \<open>generate\<close> other than \<^verbatim>\<open>KeyError\<close>.
\<close>

definition process_contact ::
  "env \<Rightarrow> string \<Rightarrow> contact \<Rightarrow> batch_state \<Rightarrow> batch_state \<times> exn option" where
  "process_contact E prompt_template contact_data st =
     (let recipient_email = dict_get contact_data ''Email'';
          company_name = company_name_of contact_data;
          subject = subject_for company_name
      in if invalid_email recipient_email
         then (record_failed E (or_na recipient_email) company_name subject
                 ''Missing or invalid email address in CSV row.'' st, None)
         else
           (let st1 = st\<lparr>calls := calls st @ [GenerateCall contact_data prompt_template],
                        tick := Suc (tick st)\<rparr>
            in case generate_at E (tick st) contact_data prompt_template of
                 Inl (KeyError e_key) \<Rightarrow>
                   (record_failed E recipient_email company_name subject
                      (''Prompt formatting error: Missing key '' @ py_repr e_key @
                       ''. Ensure all prompt placeholders match CSV headers.'') st1, None)
               | Inl (OtherError e) \<Rightarrow> (st1, Some (OtherError e))
               | Inr email_body \<Rightarrow>
                   if contains ''Error:'' email_body \<or>
                      (contains ''Dummy email content'' email_body \<and>
                       contains ''dummy_generator'' email_body)
                   then (record_failed E recipient_email company_name subject
                           (''Email content generation issue: '' @ email_body) st1, None)
                   else
                     (let st2 = st1\<lparr>calls := calls st1 @
                                      [SendCall (py_str recipient_email) subject email_body],
                                    tick := Suc (tick st1)\<rparr>;
                          (success, message) =
                             send_at E (tick st1) (py_str recipient_email) subject email_body;
                          log_status = (if success then ''Sent'' else ''Failed'');
                          st3 = log_attempt E recipient_email subject log_status message st2
                      in if success
                         then (st3\<lparr>emails_sent_count := emails_sent_count st3 + 1,
                                    results := results st3 @
                                      [\<lparr>d_recipient = recipient_email, d_company = company_name,
                                        d_status = ''Sent'', d_reason = None,
                                        d_message = Some message\<rparr>]\<rparr>, None)
                         else (st3\<lparr>emails_failed_count := emails_failed_count st3 + 1,
                                    results := results st3 @
                                      [\<lparr>d_recipient = recipient_email, d_company = company_name,
                                        d_status = ''Failed'', d_reason = Some message,
                                        d_message = None\<rparr>]\<rparr>, None))))"

text \<open>\<^verbatim>\<open>for contact_data in contacts\<close>: sequential, left at the first exception.\<close>

fun process_contacts ::
  "env \<Rightarrow> string \<Rightarrow> contact list \<Rightarrow> batch_state \<Rightarrow> batch_state \<times> exn option" where
  "process_contacts E prompt_template [] st = (st, None)"
| "process_contacts E prompt_template (contact_data # contacts) st =
     (case process_contact E prompt_template contact_data st of
        (st', Some e) \<Rightarrow> (st', Some e)
      | (st', None) \<Rightarrow> process_contacts E prompt_template contacts st')"

text \<open>The request: the uploaded file part, if any, and the form field \<^verbatim>\<open>prompt\<close>.\<close>

record upload =
  filename :: string
  content :: csv_file

record request =
  csv_file_part :: "upload option"
  prompt :: string

record summary =
  total_contacts_processed :: nat
  emails_sent :: nat
  emails_failed :: nat

text \<open>A JSON error with its HTTP status, or the summary with the per-contact details.\<close>

datatype response =
    JsonError string nat
  | JsonSummary string summary "detail list"

definition initial_state :: "csv_file \<Rightarrow> batch_state" where
  "initial_state log =
     \<lparr>log_file = log, calls = [], tick = 0, results = [],
      emails_sent_count = 0, emails_failed_count = 0\<rparr>"

text \<open>
  \<open>process_emails_route\<close> returns the response, the log store afterwards and the calls
  to \<open>generate\<close> and \<open>send\<close> it made. The saved upload is read back as it was sent.
\<close>

definition process_emails_route ::
  "env \<Rightarrow> request \<Rightarrow> csv_file \<Rightarrow> response \<times> csv_file \<times> call list" where
  "process_emails_route E req log =
     (case csv_file_part req of
        None \<Rightarrow> (JsonError ''No file part'' 400, log, [])
      | Some file \<Rightarrow>
          if filename file = [] then (JsonError ''No selected file'' 400, log, [])
          else if prompt req = [] then (JsonError ''Prompt template required'' 400, log, [])
          else if \<not> ends_with ''.csv'' (filename file)
          then (JsonError ''Invalid file type. Please upload a CSV file.'' 400, log, [])
          else
            (let st0 = initial_state log;
                 name = secure_filename E (filename file)
             in case save_raises E of
                  Some error_str \<Rightarrow>
                    (let st = log_attempt E (PStr ''N/A'') ''Batch Processing Error'' ''Failed''
                                error_str st0
                     in (JsonError (''An unexpected error occurred during processing: '' @
                                    error_str) 500, log_file st, calls st))
                | None \<Rightarrow>
                    (let contacts = extract_data_from_csv (content file) NoOptions NoOptions
                     in if contacts = [] then
                          (let msg = ''No data extracted from '' @ name @
                                     ''. Check file content or column names.'';
                               st = log_attempt E (PStr ''N/A'') ''Batch Processing Error''
                                      ''Failed'' msg st0
                           in (JsonError msg 400, log_file st, calls st))
                        else
                          (case process_contacts E (prompt req) contacts st0 of
                             (st, Some e) \<Rightarrow>
                               (let error_str = exn_str e;
                                    st' = log_attempt E (PStr ''N/A'') ''Batch Processing Error''
                                            ''Failed'' error_str st
                                in (JsonError (''An unexpected error occurred during processing: '' @
                                               error_str) 500, log_file st', calls st'))
                           | (st, None) \<Rightarrow>
                               (JsonSummary ''Email processing complete.''
                                  \<lparr>total_contacts_processed = length contacts,
                                   emails_sent = emails_sent_count st,
                                   emails_failed = emails_failed_count st\<rparr>
                                  (results st),
                                log_file st, calls st)))))"


section \<open>Statistics and the test route (\<^verbatim>\<open>app.py\<close>)\<close>

record stats =
  total_attempts :: nat
  successful_sends :: nat
  failed_sends :: nat
  recent_entries :: "csv_row list"

datatype stats_response =
    LogNotFound
  | LogEmpty stats
  | LogBadFormat
  | LogUnreadable
  | StatsJson stats

text \<open>The test of the counting loop on \<^verbatim>\<open>row.get('status', '')\<close>.\<close>

definition is_sent :: "string \<Rightarrow> bool" where
  "is_sent status = (lower (strip status) = ''sent'')"

text \<open>
  The counting loop. A row whose \<^verbatim>\<open>status\<close> is \<^verbatim>\<open>None\<close> (a short row) makes
  \<^verbatim>\<open>.strip()\<close> raise, which the handler of the route turns into an error response:
  \<open>None\<close> here.
\<close>

fun count_rows :: "csv_row list \<Rightarrow> stats \<Rightarrow> stats option" where
  "count_rows [] st = Some st"
| "count_rows (row # rows) st =
     (case row ''status'' of
        None \<Rightarrow>
          (if is_sent [] then count_rows rows (st\<lparr>successful_sends := successful_sends st + 1\<rparr>)
           else count_rows rows (st\<lparr>failed_sends := failed_sends st + 1\<rparr>))
      | Some None \<Rightarrow> None
      | Some (Some status) \<Rightarrow>
          (if is_sent status then count_rows rows (st\<lparr>successful_sends := successful_sends st + 1\<rparr>)
           else count_rows rows (st\<lparr>failed_sends := failed_sends st + 1\<rparr>)))"

text \<open>\<^verbatim>\<open>log_entries[-10:]\<close>.\<close>

definition last10 :: "'a list \<Rightarrow> 'a list" where
  "last10 xs = drop (length xs - 10) xs"

definition stats_route :: "csv_file \<Rightarrow> stats_response" where
  "stats_route log =
     (let stats0 = \<lparr>total_attempts = 0, successful_sends = 0, failed_sends = 0,
                    recent_entries = []\<rparr>
      in case log of
           None \<Rightarrow> LogNotFound
         | Some [] \<Rightarrow> LogEmpty stats0
         | Some (header # rows) \<Rightarrow>
             if header = [] then LogEmpty stats0
             else if ''status'' \<notin> set (map (\<lambda>name. lower (strip name)) header)
             then LogBadFormat
             else
               (let log_entries = dict_rows header rows
                in case count_rows log_entries (stats0\<lparr>total_attempts := length log_entries\<rparr>) of
                     None \<Rightarrow> LogUnreadable
                   | Some st \<Rightarrow> StatsJson (st\<lparr>recent_entries := last10 log_entries\<rparr>)))"



text \<open>
  The environment of the deployed application: \<open>generate\<close> and \<open>send\<close> are the functions of
  \<^verbatim>\<open>email_generator.py\<close> and \<^verbatim>\<open>email_sender.py\<close>. The client library and the transport
  are given per tick.
\<close>

record world =
  w_settings :: settings
  w_genai :: "genai_module option"
  w_service :: "nat \<Rightarrow> gen_request \<Rightarrow> gen_response"
  w_transport :: "nat \<Rightarrow> transport"
  w_clock :: "nat \<Rightarrow> string"
  w_disk_ok :: "nat \<Rightarrow> bool"
  w_secure :: "string \<Rightarrow> string"
  w_upload_fails :: "string option"

definition app_env :: "world \<Rightarrow> env" where
  "app_env w =
     \<lparr>now_at = w_clock w,
      log_writable = w_disk_ok w,
      secure_filename = w_secure w,
      save_raises = w_upload_fails w,
      generate_at = (\<lambda>t company_data user_prompt.
         Inr (fst (generate_email_content
                     (map_option (\<lambda>g. g\<lparr>generate_content := w_service w t\<rparr>) (w_genai w))
                     (w_settings w) str_format company_data user_prompt))),
      send_at = (\<lambda>t recipient_email subject body.
         fst (send_email (w_settings w) (w_transport w t) recipient_email subject body))\<rparr>"


section \<open>Notions used in the properties\<close>

text \<open>
  The log stores the logger produces: the absent file, the empty file, or the header
  followed by rows of five fields.
\<close>

definition log_wf :: "csv_file \<Rightarrow> bool" where
  "log_wf log =
     (case log of
        None \<Rightarrow> True
      | Some [] \<Rightarrow> True
      | Some (header # rows) \<Rightarrow> header = fieldnames \<and> list_all (\<lambda>r. length r = 5) rows)"

text \<open>The rows of a store after its header.\<close>

definition data_rows :: "csv_file \<Rightarrow> string list list" where
  "data_rows log = (case log of None \<Rightarrow> [] | Some [] \<Rightarrow> [] | Some (header # rows) \<Rightarrow> rows)"


text \<open>How many details have a given status.\<close>

definition count_status :: "string \<Rightarrow> detail list \<Rightarrow> nat" where
  "count_status s ds = length (filter (\<lambda>d. d_status d = s) ds)"

text \<open>The arguments of the calls to \<open>send\<close> among the recorded calls.\<close>

fun send_calls :: "call list \<Rightarrow> (string \<times> string \<times> string) list" where
  "send_calls [] = []"
| "send_calls (GenerateCall c p # cs) = send_calls cs"
| "send_calls (SendCall r s b # cs) = (r, s, b) # send_calls cs"

text \<open>Settings with nothing configured (no environment variable set), and complete ones.\<close>

definition unconfigured_settings :: settings where
  "unconfigured_settings =
     \<lparr>GEMINI_API_KEY = None, SMTP_HOST = None, SMTP_PORT = 587, SMTP_USERNAME = None,
      SMTP_PASSWORD = None, SMTP_SENDER_EMAIL = None, SMTP_USE_TLS = True\<rparr>"

definition example_settings :: settings where
  "example_settings =
     \<lparr>GEMINI_API_KEY = Some ''key'', SMTP_HOST = Some ''smtp.example.com'', SMTP_PORT = 587,
      SMTP_USERNAME = Some ''user'', SMTP_PASSWORD = Some ''secret'',
      SMTP_SENDER_EMAIL = Some ''me@example.com'', SMTP_USE_TLS = True\<rparr>"

text \<open>
  A world in which everything outside works: the client library loads, the service
  answers every request with a text, the transport accepts every call, the disk is
  writable.
\<close>

definition example_world :: world where
  "example_world =
     \<lparr>w_settings = example_settings,
      w_genai = Some \<lparr>configure_raises = None, model_raises = None,
                    generate_content = (\<lambda>r. Parts ''Hello'')\<rparr>,
      w_service = (\<lambda>t r. Parts (''Dear '' @ company_name_line r)),
      w_transport = (\<lambda>t s. None),
      w_clock = (\<lambda>t. ''2024-01-01 00:00:00''),
      w_disk_ok = (\<lambda>t. True),
      w_secure = (\<lambda>name. name),
      w_upload_fails = None\<rparr>"

definition example_upload :: upload where
  "example_upload =
     \<lparr>filename = ''contacts.csv'',
      content = Some [[''Email'', ''Company Name''], [''a@x.com'', ''Acme'']]\<rparr>"

section \<open>Properties of the Contact Extractor\<close>

lemma extract_row_value:
  assumes "extract_row ecol ccol row = Some entry"
  shows "\<exists>e. row_get row ecol = Some e \<and> strip e \<noteq> [] \<and>
             entry = [''Email'' \<mapsto> PStr (strip e),
                      ''Company Name'' \<mapsto> PStr (company_name_to_store ccol row)]"
  using assms by (auto simp: extract_row_def Let_def split: option.splits if_splits)

lemma extract_rows_from:
  "c \<in> set (extract_rows ecol ccol rows acc) \<Longrightarrow>
   c \<in> set acc \<or> (\<exists>row \<in> set rows. extract_row ecol ccol row = Some c)"
proof (induction rows arbitrary: acc)
  case Nil
  then show ?case by simp
next
  case (Cons row rows)
  show ?case
  proof (cases "extract_row ecol ccol row")
    case None
    with Cons.prems have "c \<in> set (extract_rows ecol ccol rows acc)" by simp
    from Cons.IH[OF this] show ?thesis by auto
  next
    case (Some entry)
    with Cons.prems have "c \<in> set (extract_rows ecol ccol rows (acc @ [entry]))" by simp
    from Cons.IH[OF this] Some show ?thesis by auto
  qed
qed

lemma company_name_to_store_cases:
  "company_name_to_store ccol row = ''N/A'' \<or>
   (\<exists>col v. ccol = Some col \<and> row_get row col = Some v \<and> strip v \<noteq> [] \<and>
            company_name_to_store ccol row = strip v)"
  by (auto simp: company_name_to_store_def split: option.splits)

lemma extract_data_from:
  assumes "c \<in> set (extract_data_from_csv file eo co)"
  shows "\<exists>header rows ecol row.
           file = Some (header # rows) \<and>
           find_col (normalized_fieldnames_map header)
             (col_options_list default_email_col_options eo) = Some ecol \<and>
           row \<in> set (dict_rows header rows) \<and>
           extract_row ecol
             (find_col (normalized_fieldnames_map header)
                (col_options_list default_company_col_options co)) row = Some c"
proof -
  from assms have "\<exists>header rows ecol.
      file = Some (header # rows) \<and>
      find_col (normalized_fieldnames_map header)
        (col_options_list default_email_col_options eo) = Some ecol \<and>
      c \<in> set (extract_rows ecol
              (find_col (normalized_fieldnames_map header)
                 (col_options_list default_company_col_options co))
              (dict_rows header rows) [])"
    by (auto simp: extract_data_from_csv_def Let_def dest: sym
             split: option.splits list.splits if_splits)
  then obtain header rows ecol where
    f: "file = Some (header # rows)"
    and e: "find_col (normalized_fieldnames_map header)
              (col_options_list default_email_col_options eo) = Some ecol"
    and m: "c \<in> set (extract_rows ecol
              (find_col (normalized_fieldnames_map header)
                 (col_options_list default_company_col_options co))
              (dict_rows header rows) [])"
    by blast
  from extract_rows_from[OF m] f e show ?thesis by auto
qed

text \<open>
  C1, as stated, fails: a file with the columns \<^verbatim>\<open>Email\<close>, \<^verbatim>\<open>Company Name\<close> and
  \<^verbatim>\<open>Industry\<close> yields a record in which \<^verbatim>\<open>Industry\<close> is absent, although the row
  holds a value for it.
\<close>

theorem extra_columns_dropped_counterexample:
  "map (\<lambda>c. (c ''Email'', c ''Company Name'', c ''Industry''))
     (extract_data_from_csv
        (Some [[''Email'', ''Company Name'', ''Industry''], [''a@x.com'', ''Acme'', ''Tech'']])
        NoOptions NoOptions)
   = [(Some (PStr ''a@x.com''), Some (PStr ''Acme''), None)]"
  by code_simp

text \<open>
  C1, amended: every record the extractor returns comes from one row of the file and
  has exactly the two fields \<^verbatim>\<open>Email\<close> and \<^verbatim>\<open>Company Name\<close>, both non-empty strings.
  \<^verbatim>\<open>Email\<close> is the value of that row in the recognized email column, stripped;
  \<^verbatim>\<open>Company Name\<close> is \<^verbatim>\<open>N/A\<close> or the value of that row in the recognized company
  column, stripped. Whatever other columns the file has, their values are dropped.
\<close>

theorem extracted_contact_has_two_fields:
  assumes "c \<in> set (extract_data_from_csv file email_col_options company_col_options)"
  shows "dom c = {''Email'', ''Company Name''} \<and>
         (\<exists>e n. e \<noteq> [] \<and> n \<noteq> [] \<and>
                c ''Email'' = Some (PStr e) \<and> c ''Company Name'' = Some (PStr n)) \<and>
         (\<exists>header rows ecol row email.
            file = Some (header # rows) \<and>
            find_col (normalized_fieldnames_map header)
              (col_options_list default_email_col_options email_col_options) = Some ecol \<and>
            row \<in> set (dict_rows header rows) \<and>
            row_get row ecol = Some email \<and>
            c = [''Email'' \<mapsto> PStr (strip email),
                 ''Company Name'' \<mapsto>
                   PStr (company_name_to_store
                           (find_col (normalized_fieldnames_map header)
                              (col_options_list default_company_col_options company_col_options))
                           row)] \<and>
            (company_name_to_store
               (find_col (normalized_fieldnames_map header)
                  (col_options_list default_company_col_options company_col_options)) row = ''N/A'' \<or>
             (\<exists>ccol company.
                find_col (normalized_fieldnames_map header)
                  (col_options_list default_company_col_options company_col_options) = Some ccol \<and>
                row_get row ccol = Some company \<and>
                company_name_to_store
                  (find_col (normalized_fieldnames_map header)
                     (col_options_list default_company_col_options company_col_options)) row =
                  strip company)))"
proof -
  from extract_data_from[OF assms] obtain header rows ecol row where
    f: "file = Some (header # rows)"
    and e: "find_col (normalized_fieldnames_map header)
              (col_options_list default_email_col_options email_col_options) = Some ecol"
    and r: "row \<in> set (dict_rows header rows)"
    and x: "extract_row ecol
              (find_col (normalized_fieldnames_map header)
                 (col_options_list default_company_col_options company_col_options)) row = Some c"
    by blast
  let ?ccol = "find_col (normalized_fieldnames_map header)
                 (col_options_list default_company_col_options company_col_options)"
  from extract_row_value[OF x] obtain email where
    g: "row_get row ecol = Some email" and ne: "strip email \<noteq> []"
    and c: "c = [''Email'' \<mapsto> PStr (strip email),
                 ''Company Name'' \<mapsto> PStr (company_name_to_store ?ccol row)]"
    by blast
  have cn: "company_name_to_store ?ccol row = ''N/A'' \<or>
            (\<exists>ccol company. ?ccol = Some ccol \<and> row_get row ccol = Some company \<and>
               company_name_to_store ?ccol row = strip company)"
    using company_name_to_store_cases[of ?ccol row] by blast
  have nn: "company_name_to_store ?ccol row \<noteq> []"
    using company_name_to_store_cases[of ?ccol row] by auto
  have d: "dom c = {''Email'', ''Company Name''}" using c by auto
  have v: "\<exists>e n. e \<noteq> [] \<and> n \<noteq> [] \<and>
             c ''Email'' = Some (PStr e) \<and> c ''Company Name'' = Some (PStr n)"
    using c ne nn by auto
  have w: "\<exists>header rows ecol row email.
            file = Some (header # rows) \<and>
            find_col (normalized_fieldnames_map header)
              (col_options_list default_email_col_options email_col_options) = Some ecol \<and>
            row \<in> set (dict_rows header rows) \<and>
            row_get row ecol = Some email \<and>
            c = [''Email'' \<mapsto> PStr (strip email),
                 ''Company Name'' \<mapsto>
                   PStr (company_name_to_store
                           (find_col (normalized_fieldnames_map header)
                              (col_options_list default_company_col_options company_col_options))
                           row)] \<and>
            (company_name_to_store
               (find_col (normalized_fieldnames_map header)
                  (col_options_list default_company_col_options company_col_options)) row = ''N/A'' \<or>
             (\<exists>ccol company.
                find_col (normalized_fieldnames_map header)
                  (col_options_list default_company_col_options company_col_options) = Some ccol \<and>
                row_get row ccol = Some company \<and>
                company_name_to_store
                  (find_col (normalized_fieldnames_map header)
                     (col_options_list default_company_col_options company_col_options)) row =
                  strip company))"
    using f e r g c cn by blast
  from d v w show ?thesis by blast
qed

theorem extracted_contact_has_two_fields_witness:
  "dom (hd (extract_data_from_csv
        (Some [[''Email'', ''Company Name'', ''Industry''], ['' a@x.com '', ''Acme '', ''Tech'']])
        NoOptions NoOptions)) = {''Email'', ''Company Name''} \<and>
   hd (extract_data_from_csv
        (Some [[''Email'', ''Company Name'', ''Industry''], ['' a@x.com '', ''Acme '', ''Tech'']])
        NoOptions NoOptions) ''Email'' = Some (PStr ''a@x.com'') \<and>
   hd (extract_data_from_csv
        (Some [[''Email'', ''Company Name'', ''Industry''], ['' a@x.com '', ''Acme '', ''Tech'']])
        NoOptions NoOptions) ''Company Name'' = Some (PStr ''Acme'')"
proof -
  let ?xs = "extract_data_from_csv
        (Some [[''Email'', ''Company Name'', ''Industry''], ['' a@x.com '', ''Acme '', ''Tech'']])
        NoOptions NoOptions"
  have "length ?xs = 1" by code_simp
  then have "hd ?xs \<in> set ?xs" by (cases ?xs) auto
  from extracted_contact_has_two_fields[OF this]
  have d: "dom (hd ?xs) = {''Email'', ''Company Name''}" by blast
  have v: "map (\<lambda>c. (c ''Email'', c ''Company Name'')) ?xs =
             [(Some (PStr ''a@x.com''), Some (PStr ''Acme''))]" by code_simp
  then have "hd ?xs ''Email'' = Some (PStr ''a@x.com'') \<and>
             hd ?xs ''Company Name'' = Some (PStr ''Acme'')"
    by (cases ?xs) auto
  with d show ?thesis by simp
qed

section \<open>Properties of the Mail Dispatcher\<close>

lemma starts_with_append [simp]: "starts_with p (p @ r)"
  by (induction p) auto

text \<open>
  C3: if the SMTP host, the port or the sender address is not configured (falsy),
  \<open>send_email\<close> returns \<open>success = False\<close> with the message about the incomplete SMTP
  configuration, and attempts no call to the transport.
\<close>

theorem send_email_unconfigured:
  assumes "\<not> opt_truthy (SMTP_HOST cfg) \<or> SMTP_PORT cfg = 0 \<or>
           \<not> opt_truthy (SMTP_SENDER_EMAIL cfg)"
  shows "send_email cfg server recipient_email subject body =
           ((False, ''Error: SMTP configuration (HOST, PORT, SENDER_EMAIL) is incomplete in settings.''),
            [])"
  using assms by (auto simp: send_email_def smtp_configured_def)

theorem send_email_unconfigured_witness:
  "send_email unconfigured_settings (\<lambda>s. None) ''a@x.com'' ''Hi'' ''<p>Hi</p>'' =
     ((False, ''Error: SMTP configuration (HOST, PORT, SENDER_EMAIL) is incomplete in settings.''),
      [])"
  using send_email_unconfigured[of unconfigured_settings]
  by (simp add: unconfigured_settings_def)

text \<open>
  C4, as stated, fails: with nothing configured the pair returned is none of success,
  authentication failure, server disconnect, connection failure and catch-all transport
  failure; it is the sixth outcome, the incomplete configuration.
\<close>

theorem send_email_sixth_outcome_counterexample:
  "send_outcome unconfigured_settings (\<lambda>s. None) \<notin>
     {Delivered, AuthenticationFailure, ServerDisconnect, ConnectionFailure, TransportFailure} \<and>
   fst (send_email unconfigured_settings (\<lambda>s. None) ''a@x.com'' ''Hi'' ''<p>Hi</p>'') =
     (False, ''Error: SMTP configuration (HOST, PORT, SENDER_EMAIL) is incomplete in settings.'')"
  by (simp add: send_outcome_def send_email_def smtp_configured_def unconfigured_settings_def)

text \<open>
  C4, amended: for every recipient, subject, body, configuration and behaviour of the
  transport, \<open>send_email\<close> returns a pair (it is a total function: every exception of the
  transport is a branch that returns). The pair is one of six outcomes: incomplete
  configuration, success, authentication failure, server disconnect, connection failure,
  catch-all transport failure. \<open>success\<close> is true exactly for the delivered message, and
  the outcome can be read off the message alone.
\<close>

theorem send_email_outcomes:
  "fst (fst (send_email cfg server recipient_email subject body)) =
     (send_outcome cfg server = Delivered) \<and>
   message_kind (snd (fst (send_email cfg server recipient_email subject body))) =
     Some (send_outcome cfg server)"
proof (cases "smtp_configured cfg")
  case False
  then show ?thesis
    by (simp add: send_email_def send_outcome_def message_kind_def)
next
  case True
  obtain attempted r where run: "run_smtp server (smtp_steps cfg) = (attempted, r)"
    by (cases "run_smtp server (smtp_steps cfg)")
  show ?thesis
  proof (cases r)
    case None
    with True run show ?thesis
      by (simp add: send_email_def send_outcome_def message_kind_def)
  next
    case (Some e)
    with True run show ?thesis
      by (cases e) (simp_all add: send_email_def send_outcome_def message_kind_def)
  qed
qed

section \<open>Properties of the Content Generator\<close>

text \<open>
  C7: if the client library is unavailable or the credential is not configured,
  \<open>generate_email_content\<close> returns the failure string of that case and makes no call to
  the client library, hence none to the generation service.
\<close>

theorem generate_unavailable:
  assumes "genai = None \<or> \<not> opt_truthy (GEMINI_API_KEY cfg)"
  shows "generate_email_content genai cfg fmt company_data user_prompt =
           (if genai = None then ''Error: google-generativeai library is not installed or loaded.''
            else ''Error: GEMINI_API_KEY is not configured in settings.'', [])"
  using assms by (auto simp: generate_email_content_def split: option.splits)

theorem generate_unavailable_witness:
  "generate_email_content None example_settings str_format
     [''Email'' \<mapsto> PStr ''a@x.com''] ''Hello {Email}'' =
   (''Error: google-generativeai library is not installed or loaded.'', [])"
  using generate_unavailable[of None example_settings] by simp

section \<open>Properties of the Batch Orchestrator\<close>

lemma contains_single: "contains [c] s \<longleftrightarrow> c \<in> set s"
  by (induction s) auto

lemma log_attempt_fields [simp]:
  "calls (log_attempt E r s stt m st) = calls st"
  "results (log_attempt E r s stt m st) = results st"
  "emails_sent_count (log_attempt E r s stt m st) = emails_sent_count st"
  "emails_failed_count (log_attempt E r s stt m st) = emails_failed_count st"
  "tick (log_attempt E r s stt m st) = Suc (tick st)"
  "log_file (log_attempt E r s stt m st) =
     log_email_attempt (log_writable E (tick st)) (now_at E (tick st)) r s stt m (log_file st)"
  by (simp_all add: log_attempt_def)

lemma record_failed_fields [simp]:
  "calls (record_failed E r c s reason st) = calls st"
  "results (record_failed E r c s reason st) =
     results st @ [\<lparr>d_recipient = r, d_company = c, d_status = ''Failed'',
                     d_reason = Some reason, d_message = None\<rparr>]"
  "emails_sent_count (record_failed E r c s reason st) = emails_sent_count st"
  "emails_failed_count (record_failed E r c s reason st) = emails_failed_count st + 1"
  "tick (record_failed E r c s reason st) = Suc (tick st)"
  "log_file (record_failed E r c s reason st) =
     log_email_attempt (log_writable E (tick st)) (now_at E (tick st)) r s ''Failed'' reason
       (log_file st)"
  by (simp_all add: record_failed_def Let_def)

lemma invalid_email_cases:
  assumes "c ''Email'' = None \<or> (\<exists>v. c ''Email'' = Some v \<and> \<not> is_str v) \<or>
           (\<exists>s. c ''Email'' = Some (PStr s) \<and> CHR ''@'' \<notin> set s)"
  shows "invalid_email (dict_get c ''Email'')"
  using assms by (auto simp: invalid_email_def dict_get_def contains_single)

text \<open>
  C5: a contact whose email is missing, is not a string or has no \<^verbatim>\<open>@\<close> is marked
  \<^verbatim>\<open>Failed\<close> with the reason "Missing or invalid email address in CSV row.": one detail
  entry and one log call with that status and reason, the failure counter incremented,
  and no call to \<open>generate\<close> or \<open>send\<close> recorded for it.
\<close>

theorem invalid_email_marked_failed:
  assumes "contact_data ''Email'' = None \<or>
           (\<exists>v. contact_data ''Email'' = Some v \<and> \<not> is_str v) \<or>
           (\<exists>s. contact_data ''Email'' = Some (PStr s) \<and> CHR ''@'' \<notin> set s)"
  shows "snd (process_contact E prompt_template contact_data st) = None \<and>
         calls (fst (process_contact E prompt_template contact_data st)) = calls st \<and>
         results (fst (process_contact E prompt_template contact_data st)) =
           results st @
             [\<lparr>d_recipient = or_na (dict_get contact_data ''Email''),
               d_company = company_name_of contact_data,
               d_status = ''Failed'',
               d_reason = Some ''Missing or invalid email address in CSV row.'',
               d_message = None\<rparr>] \<and>
         emails_failed_count (fst (process_contact E prompt_template contact_data st)) =
           emails_failed_count st + 1 \<and>
         emails_sent_count (fst (process_contact E prompt_template contact_data st)) =
           emails_sent_count st \<and>
         log_file (fst (process_contact E prompt_template contact_data st)) =
           log_email_attempt (log_writable E (tick st)) (now_at E (tick st))
             (or_na (dict_get contact_data ''Email''))
             (subject_for (company_name_of contact_data)) ''Failed''
             ''Missing or invalid email address in CSV row.'' (log_file st)"
  using assms invalid_email_cases[of contact_data]
  by (simp add: process_contact_def Let_def)

theorem invalid_email_marked_failed_witness:
  "results (fst (process_contact (app_env example_world) ''Hello {Company Name}''
       [''Email'' \<mapsto> PStr ''no-at-sign'', ''Company Name'' \<mapsto> PStr ''Acme'']
       (initial_state None))) =
     [\<lparr>d_recipient = PStr ''no-at-sign'', d_company = PStr ''Acme'', d_status = ''Failed'',
       d_reason = Some ''Missing or invalid email address in CSV row.'', d_message = None\<rparr>] \<and>
   calls (fst (process_contact (app_env example_world) ''Hello {Company Name}''
       [''Email'' \<mapsto> PStr ''no-at-sign'', ''Company Name'' \<mapsto> PStr ''Acme'']
       (initial_state None))) = []"
  using invalid_email_marked_failed[of
      "[''Email'' \<mapsto> PStr ''no-at-sign'', ''Company Name'' \<mapsto> PStr ''Acme'']"
      "app_env example_world" "''Hello {Company Name}''" "initial_state None"]
  by (simp add: initial_state_def or_na_def dict_get_def company_name_of_def)

lemma data_rows_log_email_attempt:
  "data_rows (log_email_attempt writable now recipient subject status message log) =
     data_rows log @ (if writable then [[now, csv_str recipient, subject, status, message]] else [])"
  by (auto simp: data_rows_def log_email_attempt_def split: option.splits list.splits)

text \<open>
  C6: when the request is well-formed and the extraction yields no contact, the route
  answers with the error "No data extracted from ..." (status 400) instead of a
  summary, calls the logger exactly once, with recipient \<^verbatim>\<open>N/A\<close>, subject
  \<^verbatim>\<open>Batch Processing Error\<close> and status \<^verbatim>\<open>Failed\<close>, and calls neither \<open>generate\<close> nor
  \<open>send\<close>: the loop is not entered.
\<close>

theorem no_contacts_aborts_batch:
  assumes "csv_file_part req = Some file"
    and "filename file \<noteq> []"
    and "prompt req \<noteq> []"
    and "ends_with ''.csv'' (filename file)"
    and "save_raises E = None"
    and "extract_data_from_csv (content file) NoOptions NoOptions = []"
  shows "process_emails_route E req log =
           (JsonError (''No data extracted from '' @ secure_filename E (filename file) @
                       ''. Check file content or column names.'') 400,
            log_email_attempt (log_writable E 0) (now_at E 0) (PStr ''N/A'')
              ''Batch Processing Error'' ''Failed''
              (''No data extracted from '' @ secure_filename E (filename file) @
               ''. Check file content or column names.'') log,
            [])"
  using assms by (simp add: process_emails_route_def Let_def initial_state_def)

lemma header_only_extracts_nothing:
  "extract_data_from_csv (Some [[''Email'', ''Company Name'']]) NoOptions NoOptions = []"
proof -
  have "length (extract_data_from_csv (Some [[''Email'', ''Company Name'']]) NoOptions NoOptions) = 0"
    by code_simp
  then show ?thesis by simp
qed

theorem no_contacts_aborts_batch_witness:
  "process_emails_route (app_env example_world)
     \<lparr>csv_file_part = Some \<lparr>filename = ''contacts.csv'',
                              content = Some [[''Email'', ''Company Name'']]\<rparr>,
      prompt = ''Hello {Company Name}''\<rparr> None =
   (JsonError ''No data extracted from contacts.csv. Check file content or column names.'' 400,
    Some [fieldnames,
          [''2024-01-01 00:00:00'', ''N/A'', ''Batch Processing Error'', ''Failed'',
           ''No data extracted from contacts.csv. Check file content or column names.'']],
    [])"
proof -
  have e: "ends_with ''.csv'' ''contacts.csv''" by code_simp
  show ?thesis
    using no_contacts_aborts_batch[of
        "\<lparr>csv_file_part = Some \<lparr>filename = ''contacts.csv'',
                              content = Some [[''Email'', ''Company Name'']]\<rparr>,
          prompt = ''Hello {Company Name}''\<rparr>"
        "\<lparr>filename = ''contacts.csv'', content = Some [[''Email'', ''Company Name'']]\<rparr>"
        "app_env example_world" None] e header_only_extracts_nothing
    by (simp add: app_env_def example_world_def log_email_attempt_def)
qed

lemma process_contact_step:
  assumes "snd (process_contact E p c st) = None"
  shows "\<exists>d. results (fst (process_contact E p c st)) = results st @ [d] \<and>
             ((d_status d = ''Sent'' \<and>
               emails_sent_count (fst (process_contact E p c st)) = emails_sent_count st + 1 \<and>
               emails_failed_count (fst (process_contact E p c st)) = emails_failed_count st) \<or>
              (d_status d = ''Failed'' \<and>
               emails_sent_count (fst (process_contact E p c st)) = emails_sent_count st \<and>
               emails_failed_count (fst (process_contact E p c st)) = emails_failed_count st + 1))"
  using assms
  by (auto simp: process_contact_def Let_def split: sum.splits exn.splits prod.splits if_splits)

lemma process_contacts_results:
  assumes "snd (process_contacts E p cs st) = None"
  shows "\<exists>ds. results (fst (process_contacts E p cs st)) = results st @ ds \<and>
              length ds = length cs \<and>
              (\<forall>d \<in> set ds. d_status d = ''Sent'' \<or> d_status d = ''Failed'') \<and>
              emails_sent_count (fst (process_contacts E p cs st)) =
                emails_sent_count st + count_status ''Sent'' ds \<and>
              emails_failed_count (fst (process_contacts E p cs st)) =
                emails_failed_count st + count_status ''Failed'' ds"
  using assms
proof (induction cs arbitrary: st)
  case Nil
  then show ?case by (simp add: count_status_def)
next
  case (Cons c cs)
  obtain st1 r where step: "process_contact E p c st = (st1, r)"
    by (cases "process_contact E p c st")
  with Cons.prems have r: "r = None" by (cases r) auto
  with step Cons.prems have rest: "snd (process_contacts E p cs st1) = None" by simp
  from process_contact_step[of E p c st] step r obtain d where
    d: "results st1 = results st @ [d]"
    and dd: "(d_status d = ''Sent'' \<and> emails_sent_count st1 = emails_sent_count st + 1 \<and>
              emails_failed_count st1 = emails_failed_count st) \<or>
             (d_status d = ''Failed'' \<and> emails_sent_count st1 = emails_sent_count st \<and>
              emails_failed_count st1 = emails_failed_count st + 1)"
    by auto
  from Cons.IH[OF rest] obtain ds where
    ds: "results (fst (process_contacts E p cs st1)) = results st1 @ ds"
        "length ds = length cs"
        "\<forall>d \<in> set ds. d_status d = ''Sent'' \<or> d_status d = ''Failed''"
        "emails_sent_count (fst (process_contacts E p cs st1)) =
           emails_sent_count st1 + count_status ''Sent'' ds"
        "emails_failed_count (fst (process_contacts E p cs st1)) =
           emails_failed_count st1 + count_status ''Failed'' ds"
    by blast
  have eq: "process_contacts E p (c # cs) st = process_contacts E p cs st1"
    using step r by simp
  show ?case
    unfolding eq
    by (rule exI[of _ "d # ds"]) (use d dd ds in \<open>auto simp: count_status_def\<close>)
qed


lemma app_env_generate_returns:
  "\<exists>body. generate_at (app_env w) t c p = Inr body"
  by (simp add: app_env_def)

lemma process_contact_no_exception:
  assumes "\<And>t c p. \<exists>body. generate_at E t c p = Inr body \<or> (\<exists>k. generate_at E t c p = Inl (KeyError k))"
  shows "snd (process_contact E p c st) = None"
proof -
  from assms[of "tick st" c p] show ?thesis
    by (auto simp: process_contact_def Let_def split: sum.splits exn.splits prod.splits)
qed

lemma process_contacts_no_exception:
  assumes "\<And>t c p. \<exists>body. generate_at E t c p = Inr body \<or> (\<exists>k. generate_at E t c p = Inl (KeyError k))"
  shows "snd (process_contacts E p cs st) = None"
proof (induction cs arbitrary: st)
  case Nil
  then show ?case by simp
next
  case (Cons c cs)
  have "snd (process_contact E p c st) = None"
    by (rule process_contact_no_exception[OF assms])
  then show ?case using Cons.IH
    by (cases "process_contact E p c st") auto
qed

lemma summary_response:
  assumes "process_emails_route E req log = (JsonSummary msg sm ds, log', cs)"
  shows "\<exists>file st. csv_file_part req = Some file \<and>
           extract_data_from_csv (content file) NoOptions NoOptions \<noteq> [] \<and>
           process_contacts E (prompt req)
             (extract_data_from_csv (content file) NoOptions NoOptions) (initial_state log) =
             (st, None) \<and>
           msg = ''Email processing complete.'' \<and>
           sm = \<lparr>total_contacts_processed =
                    length (extract_data_from_csv (content file) NoOptions NoOptions),
                  emails_sent = emails_sent_count st,
                  emails_failed = emails_failed_count st\<rparr> \<and>
           ds = results st \<and> log' = log_file st \<and> cs = calls st"
  using assms
  by (auto simp: process_emails_route_def Let_def
           split: option.splits if_splits prod.splits)


lemma count_status_split:
  "\<forall>d \<in> set ds. d_status d = ''Sent'' \<or> d_status d = ''Failed'' \<Longrightarrow>
   count_status ''Sent'' ds + count_status ''Failed'' ds = length ds"
  by (induction ds) (auto simp: count_status_def)

lemma summary_counts_any_env:
  assumes "process_emails_route E req log = (JsonSummary msg sm ds, log', cs)"
  shows "\<exists>file. csv_file_part req = Some file \<and>
           extract_data_from_csv (content file) NoOptions NoOptions \<noteq> [] \<and>
           total_contacts_processed sm =
             length (extract_data_from_csv (content file) NoOptions NoOptions) \<and>
           total_contacts_processed sm = emails_sent sm + emails_failed sm \<and>
           length ds = total_contacts_processed sm \<and>
           (\<forall>d \<in> set ds. d_status d = ''Sent'' \<or> d_status d = ''Failed'') \<and>
           emails_sent sm = count_status ''Sent'' ds \<and>
           emails_failed sm = count_status ''Failed'' ds"
proof -
  from summary_response[OF assms] obtain upl st where
    f: "csv_file_part req = Some upl"
    and ne: "extract_data_from_csv (content upl) NoOptions NoOptions \<noteq> []"
    and run: "process_contacts E (prompt req)
                (extract_data_from_csv (content upl) NoOptions NoOptions) (initial_state log) =
              (st, None)"
    and sm: "sm = \<lparr>total_contacts_processed =
                    length (extract_data_from_csv (content upl) NoOptions NoOptions),
                  emails_sent = emails_sent_count st,
                  emails_failed = emails_failed_count st\<rparr>"
    and ds: "ds = results st"
    by blast
  let ?contacts = "extract_data_from_csv (content upl) NoOptions NoOptions"
  from run have "snd (process_contacts E (prompt req) ?contacts (initial_state log)) = None"
    by simp
  from process_contacts_results[OF this] run obtain ds' where
    r: "results st = results (initial_state log) @ ds'"
       "length ds' = length ?contacts"
       "\<forall>d \<in> set ds'. d_status d = ''Sent'' \<or> d_status d = ''Failed''"
       "emails_sent_count st = emails_sent_count (initial_state log) + count_status ''Sent'' ds'"
       "emails_failed_count st =
          emails_failed_count (initial_state log) + count_status ''Failed'' ds'"
    by auto
  have ds': "ds = ds'" using ds r(1) by (simp add: initial_state_def)
  have sent: "emails_sent sm = count_status ''Sent'' ds"
    using sm r(4) ds' by (simp add: initial_state_def)
  have failed: "emails_failed sm = count_status ''Failed'' ds"
    using sm r(5) ds' by (simp add: initial_state_def)
  have total: "total_contacts_processed sm = length ds"
    using sm r(2) ds' by simp
  have "count_status ''Sent'' ds + count_status ''Failed'' ds = length ds"
    using count_status_split r(3) ds' by blast
  with sent failed total have "total_contacts_processed sm = emails_sent sm + emails_failed sm"
    by simp
  with f ne sm sent failed total r(3) ds' show ?thesis by auto
qed

text \<open>
  C9: for a well-formed request whose extraction yields at least one contact, the
  deployed application returns a summary in which the total equals the number of
  extracted contacts and equals sent plus failed, and the details hold exactly one entry
  per contact, each \<^verbatim>\<open>Sent\<close> or \<^verbatim>\<open>Failed\<close>, the two counters counting the entries of
  their status.
\<close>

theorem batch_summary_counts:
  assumes "csv_file_part req = Some file"
    and "filename file \<noteq> []"
    and "prompt req \<noteq> []"
    and "ends_with ''.csv'' (filename file)"
    and "w_upload_fails w = None"
    and "extract_data_from_csv (content file) NoOptions NoOptions \<noteq> []"
  shows "\<exists>sm ds log' cs.
           process_emails_route (app_env w) req log =
             (JsonSummary ''Email processing complete.'' sm ds, log', cs) \<and>
           total_contacts_processed sm =
             length (extract_data_from_csv (content file) NoOptions NoOptions) \<and>
           total_contacts_processed sm = emails_sent sm + emails_failed sm \<and>
           length ds = total_contacts_processed sm \<and>
           (\<forall>d \<in> set ds. d_status d = ''Sent'' \<or> d_status d = ''Failed'') \<and>
           emails_sent sm = count_status ''Sent'' ds \<and>
           emails_failed sm = count_status ''Failed'' ds"
proof -
  let ?contacts = "extract_data_from_csv (content file) NoOptions NoOptions"
  let ?E = "app_env w"
  obtain st r where run: "process_contacts ?E (prompt req) ?contacts (initial_state log) = (st, r)"
    by (cases "process_contacts ?E (prompt req) ?contacts (initial_state log)")
  have "snd (process_contacts ?E (prompt req) ?contacts (initial_state log)) = None"
    by (rule process_contacts_no_exception) (simp add: app_env_def)
  with run have r: "r = None" by simp
  have save: "save_raises ?E = None" using assms(5) by (simp add: app_env_def)
  have resp: "process_emails_route ?E req log =
          (JsonSummary ''Email processing complete.''
             \<lparr>total_contacts_processed = length ?contacts,
              emails_sent = emails_sent_count st,
              emails_failed = emails_failed_count st\<rparr> (results st), log_file st, calls st)"
    using assms(1-4,6) save run r
    by (simp add: process_emails_route_def Let_def)
  from summary_counts_any_env[OF resp] assms(1) show ?thesis
    using resp by auto
qed

theorem batch_summary_counts_witness:
  "\<exists>sm ds log' cs.
     process_emails_route (app_env example_world)
       \<lparr>csv_file_part = Some example_upload, prompt = ''Hello {Company Name}''\<rparr> None =
       (JsonSummary ''Email processing complete.'' sm ds, log', cs) \<and>
     total_contacts_processed sm = 1 \<and>
     total_contacts_processed sm = emails_sent sm + emails_failed sm \<and>
     length ds = 1"
proof -
  have e: "ends_with ''.csv'' ''contacts.csv''" by code_simp
  have n: "length (extract_data_from_csv (content example_upload) NoOptions NoOptions) = 1"
    by code_simp
  then have ne: "extract_data_from_csv (content example_upload) NoOptions NoOptions \<noteq> []"
    by auto
  have f: "filename example_upload = ''contacts.csv''" by (simp add: example_upload_def)
  have u: "w_upload_fails example_world = None" by (simp add: example_world_def)
  from batch_summary_counts[of
      "\<lparr>csv_file_part = Some example_upload, prompt = ''Hello {Company Name}''\<rparr>"
      example_upload example_world None] e ne f u n
  show ?thesis by auto
qed

section \<open>Properties of the statistics\<close>








text \<open>The other response that carries statistics, for a log without a header, has all counts zero.\<close>

lemma stats_empty_log:
  assumes "stats_route log = LogEmpty st"
  shows "total_attempts st = 0 \<and> successful_sends st = 0 \<and> failed_sends st = 0"
  using assms
  by (auto simp: stats_route_def Let_def split: option.splits list.splits if_splits)

section \<open>Properties of the Attempt Logger\<close>






lemma log_email_attempt_appends:
  assumes "log_wf log"
  shows "log_email_attempt True now recipient subject status message log =
           Some (fieldnames # data_rows log @ [[now, csv_str recipient, subject, status, message]])"
  using assms
  by (auto simp: log_wf_def log_email_attempt_def data_rows_def split: option.splits list.splits)

lemma log_wf_data_rows:
  "log_wf log \<Longrightarrow> list_all (\<lambda>r. length r = 5) (data_rows log)"
  by (auto simp: log_wf_def data_rows_def split: option.splits list.splits)

lemma log_wf_preserved:
  assumes "log_wf log"
  shows "log_wf (log_email_attempt writable now recipient subject status message log)"
proof (cases writable)
  case False
  with assms show ?thesis by (simp add: log_email_attempt_def)
next
  case True
  with log_email_attempt_appends[OF assms] log_wf_data_rows[OF assms] show ?thesis
    by (simp add: log_wf_def)
qed





section \<open>A missing placeholder in the deployed application\<close>

text \<open>
  When \<open>generate\<close> raises \<^verbatim>\<open>KeyError\<close>, the loop marks the contact \<^verbatim>\<open>Failed\<close> with a
  reason naming the key and does not call \<open>send\<close>: the handler of the route does what C2
  says.
\<close>

lemma key_error_marked_failed:
  assumes "\<not> invalid_email (dict_get contact_data ''Email'')"
    and "generate_at E (tick st) contact_data prompt_template = Inl (KeyError k)"
  shows "snd (process_contact E prompt_template contact_data st) = None \<and>
         send_calls (calls (fst (process_contact E prompt_template contact_data st))) =
           send_calls (calls st) \<and>
         results (fst (process_contact E prompt_template contact_data st)) =
           results st @
             [\<lparr>d_recipient = dict_get contact_data ''Email'',
               d_company = company_name_of contact_data,
               d_status = ''Failed'',
               d_reason = Some (''Prompt formatting error: Missing key '' @ py_repr k @
                               ''. Ensure all prompt placeholders match CSV headers.''),
               d_message = None\<rparr>]"
proof -
  have sc: "\<And>xs c p. send_calls (xs @ [GenerateCall c p]) = send_calls xs"
  proof -
    fix xs :: "call list" and c p
    show "send_calls (xs @ [GenerateCall c p]) = send_calls xs"
      by (induction xs rule: send_calls.induct) simp_all
  qed
  show ?thesis using assms by (simp add: process_contact_def Let_def sc)
qed

text \<open>
  The deployed generator never raises: its own handler turns the \<^verbatim>\<open>KeyError\<close> into a
  returned string, which starts with \<^verbatim>\<open>Error generating\<close> and so holds the marker
  \<^verbatim>\<open>Error:\<close> only if the text of the exception does.
\<close>

lemma contains_error_prefix:
  "contains ''Error:'' (generation_error e) = contains ''Error:'' e"
  by (simp add: generation_error_def)

lemma generate_missing_key:
  assumes "genai = Some g"
    and "opt_truthy (GEMINI_API_KEY cfg)"
    and "configure_raises g = None"
    and "model_raises g = None"
    and "fmt user_prompt company_data = Inl (KeyError k)"
  shows "fst (generate_email_content genai cfg fmt company_data user_prompt) =
           ''Error generating email content: '' @ py_repr k"
  using assms by (simp add: generate_email_content_def generation_error_def Let_def)

text \<open>
  C2 fails on the deployed application: with the client library loaded and the
  credential configured, the prompt \<^verbatim>\<open>Hello {Industry}\<close> and a contact without the field
  \<^verbatim>\<open>Industry\<close>, the contact is counted and logged as \<^verbatim>\<open>Sent\<close>, and \<open>send\<close> is called
  with the generator's error text as the body of the email.
\<close>

theorem missing_placeholder_is_dispatched:
  "(case process_emails_route (app_env example_world)
           \<lparr>csv_file_part = Some example_upload, prompt = ''Hello {Industry}''\<rparr> None of
      (JsonSummary msg sm ds, log', cs) \<Rightarrow>
        emails_sent sm = 1 \<and> emails_failed sm = 0 \<and>
        map d_status ds = [''Sent''] \<and>
        send_calls cs =
          [(''a@x.com'', ''Regarding Your Business, Acme'',
            ''Error generating email content: '' @ [CHR 0x27] @ ''Industry'' @ [CHR 0x27])] \<and>
        map (\<lambda>r. r ! 3) (data_rows log') = [''Sent'']
    | _ \<Rightarrow> False)"
  by code_simp

end
